theory Spec2Isabelle
  imports Main "HOL-Library.AList" "HOL-Library.List_Lexorder"
begin

section \<open>Strings, errors and Python values\<close>

text \<open>
  A Python text string is a list of Unicode code points. \<open>ascii\<close> writes an ASCII
  literal as such a string.
\<close>

type_synonym ustr = "nat list"

definition ascii :: "string \<Rightarrow> ustr" where
  "ascii s = map of_char s"

text \<open>The exceptions that the modelled code and its storage collaborator raise.\<close>

datatype error =
    AttributeError
  | ArgumentError
  | IndexError
  | KeyError
  | TypeError
  | IntegrityError
  | StatementError
  | OperationalError
  | InterfaceError
  | MalformedTagError

text \<open>
  The values of a response dictionary: strings and nested dictionaries. A dictionary is
  an association list with distinct keys, read with \<open>map_of\<close>, written with
  \<open>AList.update\<close> and \<open>AList.delete\<close>.
\<close>

datatype pyval = Str ustr | Dict "(ustr \<times> pyval) list"

type_synonym response = "(ustr \<times> pyval) list"

text \<open>Python truthiness of a value: the empty string and the empty dictionary are falsy.\<close>

fun truthy :: "pyval \<Rightarrow> bool" where
  "truthy (Str s) = (s \<noteq> [])"
| "truthy (Dict d) = (d \<noteq> [])"

text \<open>\<open>str.startswith\<close>.\<close>

definition startswith :: "ustr \<Rightarrow> ustr \<Rightarrow> bool" where
  "startswith s p = (take (length p) s = p)"

section \<open>The field catalog\<close>

text \<open>\<open>UNIHAN_DATASETS\<close> of \<open>cihai/datasets/unihan.py\<close>: file name to field names.\<close>

type_synonym install_dict = "(ustr \<times> ustr list) list"

definition UNIHAN_DATASETS :: install_dict where
  "UNIHAN_DATASETS = map (\<lambda>(t, fs). (ascii t, map ascii fs))
    [(''Unihan_DictionaryIndices.txt'',
        [''kCheungBauerIndex'', ''kCowles'', ''kDaeJaweon'', ''kFennIndex'', ''kGSR'',
         ''kHanYu'', ''kIRGDaeJaweon'', ''kIRGDaiKanwaZiten'', ''kIRGHanyuDaZidian'',
         ''kIRGKangXi'', ''kKangXi'', ''kKarlgren'', ''kLau'', ''kMatthews'',
         ''kMeyerWempe'', ''kMorohashi'', ''kNelson'', ''kSBGY'']),
     (''Unihan_DictionaryLikeData.txt'',
        [''kCangjie'', ''kCheungBauer'', ''kCihaiT'', ''kFenn'', ''kFourCornerCode'',
         ''kFrequency'', ''kGradeLevel'', ''kHDZRadBreak'', ''kHKGlyph'', ''kPhonetic'',
         ''kTotalStrokes'']),
     (''Unihan_IRGSources.txt'',
        [''kIICore'', ''kIRG_GSource'', ''kIRG_HSource'', ''kIRG_JSource'',
         ''kIRG_KPSource'', ''kIRG_KSource'', ''kIRG_MSource'', ''kIRG_TSource'',
         ''kIRG_USource'', ''kIRG_VSource'']),
     (''Unihan_NumericValues.txt'',
        [''kAccountingNumeric'', ''kOtherNumeric'', ''kPrimaryNumeric'']),
     (''Unihan_OtherMappings.txt'',
        [''kBigFive'', ''kCCCII'', ''kCNS1986'', ''kCNS1992'', ''kEACC'', ''kGB0'', ''kGB1'',
         ''kGB3'', ''kGB5'', ''kGB7'', ''kGB8'', ''kHKSCS'', ''kIBMJapan'', ''kJis0'',
         ''kJis1'', ''kJIS0213'', ''kKPS0'', ''kKPS1'', ''kKSC0'', ''kKSC1'',
         ''kMainlandTelegraph'', ''kPseudoGB1'', ''kTaiwanTelegraph'', ''kXerox'']),
     (''Unihan_RadicalStrokeCounts.txt'',
        [''kRSAdobe_Japan1_6'', ''kRSJapanese'', ''kRSKangXi'', ''kRSKanWa'', ''kRSKorean'',
         ''kRSUnicode'']),
     (''Unihan_Readings.txt'',
        [''kCantonese'', ''kDefinition'', ''kHangul'', ''kHanyuPinlu'', ''kHanyuPinyin'',
         ''kJapaneseKun'', ''kJapaneseOn'', ''kKorean'', ''kMandarin'', ''kTang'',
         ''kVietnamese'', ''kXHC1983'']),
     (''Unihan_Variants.txt'',
        [''kCompatibilityVariant'', ''kSemanticVariant'', ''kSimplifiedVariant'',
         ''kSpecializedSemanticVariant'', ''kTraditionalVariant'', ''kZVariant''])]"

text \<open>
  \<open>Unihan.__init__\<close>: \<open>self.fields = [f for t, f in UNIHAN_DATASETS.items() if t in
  ['Unihan']]\<close>, kept as \<open>self.default_fields\<close>. Each element is the field list of one
  file whose name is \<open>'Unihan'\<close>.
\<close>

definition default_fields :: "ustr list list" where
  "default_fields = map snd (filter (\<lambda>(t, f). t \<in> set [ascii ''Unihan'']) UNIHAN_DATASETS)"

section \<open>Schema: tables of the metadata\<close>

datatype sqltype = StringT nat | IntegerT

record column =
  col_name :: ustr
  col_type :: sqltype
  primary_key :: bool
  nullable :: bool

record index =
  idx_name :: ustr
  idx_columns :: "ustr list"
  idx_unique :: bool

text \<open>
  A table of the metadata: its columns, the names of the columns of its primary-key
  constraint (\<open>table.primary_key\<close>), and its indexes.
\<close>

record table =
  columns :: "column list"
  pkey :: "ustr list"
  indexes :: "index list"

text \<open>\<open>MetaData.tables\<close>: the tables declared on the Python side, by name.\<close>

type_synonym metadata = "ustr \<rightharpoonup> table"

text \<open>\<open>Column(name, type, primary_key=pk)\<close>: \<open>nullable\<close> defaults to \<open>not primary_key\<close>.\<close>

definition Column :: "ustr \<Rightarrow> sqltype \<Rightarrow> bool \<Rightarrow> column" where
  "Column n ty pk = \<lparr>col_name = n, col_type = ty, primary_key = pk, nullable = \<not> pk\<rparr>"

text \<open>
  \<open>Table.append_column\<close>: a column whose name the table already has replaces that
  column where it stands; any other column goes to the end. A primary-key column then
  joins the primary-key constraint. A column that is not a primary-key column, under a
  name that the constraint holds, is refused with \<open>ArgumentError\<close>, after the columns
  have been updated; the error comes with the table as the call leaves it.
\<close>

definition append_column :: "table \<Rightarrow> column \<Rightarrow> (error \<times> table) + table" where
  "append_column t c =
     (let t1 = (if col_name c \<in> set (map col_name (columns t))
                then t\<lparr>columns := map (\<lambda>d. if col_name d = col_name c then c else d) (columns t)\<rparr>
                else t\<lparr>columns := columns t @ [c]\<rparr>)
      in if primary_key c
         then Inr (if col_name c \<in> set (pkey t1) then t1
                   else t1\<lparr>pkey := pkey t1 @ [col_name c]\<rparr>)
         else if col_name c \<in> set (pkey t1) then Inl (ArgumentError, t1)
         else Inr t1)"

text \<open>A run of \<open>append_column\<close> calls on one table, which the first error ends.\<close>

fun append_columns :: "table \<Rightarrow> column list \<Rightarrow> (error \<times> table) + table" where
  "append_columns t [] = Inr t"
| "append_columns t (c # cs) =
     (case append_column t c of
        Inl x \<Rightarrow> Inl x
      | Inr t' \<Rightarrow> append_columns t' cs)"

text \<open>\<open>Index(name, *columns, unique=u)\<close> attaches a new index to the table of its columns.\<close>

definition add_index :: "table \<Rightarrow> ustr \<Rightarrow> ustr list \<Rightarrow> bool \<Rightarrow> table" where
  "add_index t n cs u =
     t\<lparr>indexes := indexes t @ [\<lparr>idx_name = n, idx_columns = cs, idx_unique = u\<rparr>]\<rparr>"

definition TABLE_NAME :: ustr where
  "TABLE_NAME = ascii ''Unihan''"

definition DEFAULT_COLUMNS :: "ustr list" where
  "DEFAULT_COLUMNS = [ascii ''ucn'', ascii ''char'']"

text \<open>\<open>flatten_datasets = lambda d: sorted({c for cs in d.values() for c in cs})\<close>.\<close>

definition flatten_datasets :: "install_dict \<Rightarrow> ustr list" where
  "flatten_datasets d = sort (remdups (concat (map snd d)))"

text \<open>
  \<open>bootstrap.is_bootstrapped(metadata, install_dict=None)\<close>. \<open>UNIHAN_MANIFEST\<close> comes
  from the package \<open>unihan_tabular\<close> and is a parameter here. \<open>not install_dict\<close> holds
  for \<open>None\<close> and for the empty dictionary.
\<close>

definition is_bootstrapped :: "install_dict \<Rightarrow> metadata \<Rightarrow> install_dict option \<Rightarrow> bool" where
  "is_bootstrapped UNIHAN_MANIFEST metadata install_dict =
     (let install_dict' =
            (case install_dict of
               None \<Rightarrow> UNIHAN_MANIFEST
             | Some d \<Rightarrow> if d = [] then UNIHAN_MANIFEST else d);
          cols = flatten_datasets install_dict' @ DEFAULT_COLUMNS
      in case metadata TABLE_NAME of
           Some t \<Rightarrow> if set cols = set (map col_name (columns t)) then True else False
         | None \<Rightarrow> False)"

text \<open>
  \<open>bootstrap.create_table(columns, metadata)\<close>, on the metadata only: the function
  issues no statement to the database. \<open>Table(TABLE_NAME, metadata)\<close> registers the
  new table at once; the columns \<open>char\<close> and \<open>ucn\<close> and then one column per name
  are appended to it, and the two indexes follow. The result is the table or the
  exception, together with the metadata that the call leaves behind.
\<close>

definition create_table :: "ustr list \<Rightarrow> metadata \<Rightarrow> (error + table) \<times> metadata" where
  "create_table cols metadata =
     (case metadata TABLE_NAME of
        None \<Rightarrow>
          (case append_columns \<lparr>columns = [], pkey = [], indexes = []\<rparr>
                  (Column (ascii ''char'') (StringT 12) True #
                   Column (ascii ''ucn'') (StringT 12) True #
                   map (\<lambda>column_name. Column column_name (StringT 256) False) cols) of
             Inl (e, t) \<Rightarrow> (Inl e, metadata(TABLE_NAME \<mapsto> t))
           | Inr t3 \<Rightarrow>
               (let t4 = add_index t3 (TABLE_NAME @ ascii ''_unique_char'') [ascii ''char''] True;
                    t5 = add_index t4 (TABLE_NAME @ ascii ''_unique_char_ucn'')
                           [ascii ''char'', ascii ''ucn''] True
                in (Inr t5, metadata(TABLE_NAME \<mapsto> t5))))
      | Some t \<Rightarrow> (Inr t, metadata))"

section \<open>Reading the source files\<close>

text \<open>
  \<open>str.strip()\<close> removes the white space of Unicode at both ends; \<open>str.split('\t')\<close>
  cuts at every tab and always returns at least one part.
\<close>

definition is_space :: "nat \<Rightarrow> bool" where
  "is_space c = (c \<in> set [9, 10, 11, 12, 13, 28, 29, 30, 31, 32, 133, 160, 5760,
     8192, 8193, 8194, 8195, 8196, 8197, 8198, 8199, 8200, 8201, 8202,
     8232, 8233, 8239, 8287, 12288])"

definition strip :: "ustr \<Rightarrow> ustr" where
  "strip s = rev (dropWhile is_space (rev (dropWhile is_space s)))"

fun split_tab :: "ustr \<Rightarrow> ustr list" where
  "split_tab [] = [[]]"
| "split_tab (c # cs) =
     (if c = 9 then [] # split_tab cs
      else (case split_tab cs of
              [] \<Rightarrow> [[c]]
            | p # ps \<Rightarrow> (c # p) # ps))"

text \<open>A row, and a record read from a line: column name to string. An absent column is NULL.\<close>

type_synonym row = "(ustr \<times> ustr) list"

definition keys :: "ustr list" where
  "keys = [ascii ''char'', ascii ''field'', ascii ''value'']"

text \<open>\<open>dict(zip(keys, l.strip().split('\t')))\<close>: \<open>zip\<close> stops at the shorter list.\<close>

definition line_record :: "ustr \<Rightarrow> row" where
  "line_record l = zip keys (split_tab (strip l))"

text \<open>
  \<open>csv_to_dictlists\<close> inside \<open>Unihan.install\<close>, on the lines of the concatenated
  stream: \<open>[... for l in combine if l[0] != '#' and l != '\n']\<close>. \<open>l[0]\<close> raises
  \<open>IndexError\<close> on an empty string.
\<close>

fun csv_to_dictlists :: "ustr list \<Rightarrow> error + row list" where
  "csv_to_dictlists [] = Inr []"
| "csv_to_dictlists (l # ls) =
     (case l of
        [] \<Rightarrow> Inl IndexError
      | c # _ \<Rightarrow>
          (case csv_to_dictlists ls of
             Inl e \<Rightarrow> Inl e
           | Inr ds \<Rightarrow>
               if c \<noteq> of_char CHR ''#'' \<and> l \<noteq> [10] then Inr (line_record l # ds)
               else Inr ds))"

section \<open>The database behind the metadata\<close>

text \<open>
  The storage collaborator: for every table it holds the schema it was created with and
  its rows in insertion order. The integer key that the engine assigns to a row is not
  kept in the row. The engine is taken to behave as SQLite does: a declared
  string length is not enforced, NULLs never collide in a unique index, a scalar
  subquery yields its first row, and \<open>LIKE\<close> ignores the case of ASCII letters.
\<close>

record stored =
  schema :: table
  rows :: "row list"

type_synonym database = "ustr \<rightharpoonup> stored"

record state =
  tables :: metadata
  db :: database

text \<open>
  \<open>MetaData.create_all()\<close> with its default \<open>checkfirst=True\<close>: a table of the
  metadata that the database lacks is created, empty, with the columns and indexes
  declared at that moment; a table that the database has is left alone.
\<close>

definition create_all :: "state \<Rightarrow> state" where
  "create_all s =
     s\<lparr>db := (\<lambda>n. case db s n of
                     Some st \<Rightarrow> Some st
                   | None \<Rightarrow> (case tables s n of
                                None \<Rightarrow> None
                              | Some t \<Rightarrow> Some \<lparr>schema = t, rows = []\<rparr>))\<rparr>"

text \<open>The column that the engine fills in: a primary key of one integer column.\<close>

definition autoincrement :: "table \<Rightarrow> ustr option" where
  "autoincrement t =
     (case pkey t of
        [k] \<Rightarrow> if list_ex (\<lambda>c. col_name c = k \<and> col_type c = IntegerT) (columns t)
               then Some k else None
      | _ \<Rightarrow> None)"

definition not_null_ok :: "table \<Rightarrow> row \<Rightarrow> bool" where
  "not_null_ok t r =
     list_all (\<lambda>c. nullable c \<or> Some (col_name c) = autoincrement t
                    \<or> map_of r (col_name c) \<noteq> None) (columns t)"

text \<open>Two rows collide on a key when neither has a NULL there and the values are equal.\<close>

definition agree_on :: "ustr list \<Rightarrow> row \<Rightarrow> row \<Rightarrow> bool" where
  "agree_on cs r r' =
     (cs \<noteq> [] \<and> list_all (\<lambda>c. map_of r c \<noteq> None \<and> map_of r c = map_of r' c) cs)"

text \<open>The keys that the engine keeps unique: the primary key and every unique index.\<close>

definition unique_keys :: "table \<Rightarrow> ustr list list" where
  "unique_keys t =
     (if pkey t = [] then [] else [pkey t]) @ map idx_columns (filter idx_unique (indexes t))"

definition violates :: "table \<Rightarrow> row list \<Rightarrow> row \<Rightarrow> bool" where
  "violates t rs r = list_ex (\<lambda>cs. list_ex (agree_on cs r) rs) (unique_keys t)"

text \<open>One \<open>INSERT\<close> of the given columns.\<close>

definition insert_row :: "table \<Rightarrow> row list \<Rightarrow> row \<Rightarrow> error + row list" where
  "insert_row t rs r =
     (if \<not> list_all (\<lambda>k. k \<in> set (map col_name (columns t))) (map fst r)
      then Inl OperationalError
      else if not_null_ok t r \<and> \<not> violates t rs r then Inr (rs @ [r])
      else Inl IntegrityError)"

fun insert_all :: "table \<Rightarrow> row list \<Rightarrow> row list \<Rightarrow> error + row list" where
  "insert_all t rs [] = Inr rs"
| "insert_all t rs (r # ds) =
     (case insert_row t rs r of
        Inl e \<Rightarrow> Inl e
      | Inr rs' \<Rightarrow> insert_all t rs' ds)"

text \<open>
  The statement takes its columns from the keys of the first parameter dictionary; a
  later dictionary that lacks one of them is refused, and its other keys are not used.
\<close>

definition bind_params :: "ustr list \<Rightarrow> row \<Rightarrow> error + row" where
  "bind_params ks m =
     (if list_all (\<lambda>k. map_of m k \<noteq> None) ks
      then Inr (filter (\<lambda>kv. fst kv \<in> set ks) m)
      else Inl StatementError)"

fun bind_all :: "ustr list \<Rightarrow> row list \<Rightarrow> error + row list" where
  "bind_all ks [] = Inr []"
| "bind_all ks (m # ms) =
     (case bind_params ks m of
        Inl e \<Rightarrow> Inl e
      | Inr p \<Rightarrow> (case bind_all ks ms of
                    Inl e \<Rightarrow> Inl e
                  | Inr ps \<Rightarrow> Inr (p # ps)))"

text \<open>
  \<open>metadata.bind.execute(table.insert(), data)\<close> on the stored table: all rows or, at
  the first failure, none (the engine rolls the statement back). An empty parameter list
  runs the statement once with no parameters, which inserts one row of defaults.
\<close>

definition execute_insert :: "stored \<Rightarrow> row list \<Rightarrow> error + stored" where
  "execute_insert st data =
     (case data of
        [] \<Rightarrow>
          (case insert_row (schema st) (rows st) [] of
             Inl e \<Rightarrow> Inl e
           | Inr rs \<Rightarrow> Inr (st\<lparr>rows := rs\<rparr>))
      | d # _ \<Rightarrow>
          (case bind_all (map fst d) data of
             Inl e \<Rightarrow> Inl e
           | Inr ps \<Rightarrow>
               (case insert_all (schema st) (rows st) ps of
                  Inl e \<Rightarrow> Inl e
                | Inr rs \<Rightarrow> Inr (st\<lparr>rows := rs\<rparr>))))"

section \<open>The importer\<close>

text \<open>
  \<open>Unihan._create_table(table_name)\<close>. \<open>Table(table_name, self.metadata)\<close> is the
  table of that name when the metadata has one, and a new table without columns
  otherwise; the column \<open>id\<close> and the columns of \<open>fields\<close> are appended in either
  case, then the three indexes are attached and \<open>create_all\<close> runs. An
  \<open>ArgumentError\<close> of \<open>append_column\<close> ends the call before that.
\<close>

definition Unihan_create_table :: "ustr \<Rightarrow> state \<Rightarrow> (error + table) \<times> state" where
  "Unihan_create_table table_name s =
     (let table0 = (case tables s table_name of
                      Some t \<Rightarrow> t
                    | None \<Rightarrow> \<lparr>columns = [], pkey = [], indexes = []\<rparr>);
          fields = [(ascii ''char'', StringT 12), (ascii ''field'', StringT 36),
                    (ascii ''value'', StringT 256)]
      in case append_columns table0
                (Column (ascii ''id'') IntegerT True #
                 map (\<lambda>(field, ty). Column field ty False) fields) of
           Inl (e, t) \<Rightarrow> (Inl e, s\<lparr>tables := (tables s)(table_name \<mapsto> t)\<rparr>)
         | Inr t2 \<Rightarrow>
             (let t3 = add_index t2 (table_name @ ascii ''_unique_char_field_value'')
                         [ascii ''char'', ascii ''field'', ascii ''value''] True;
                  t4 = add_index t3 (table_name @ ascii ''_unique_char_field'')
                         [ascii ''char'', ascii ''field''] True;
                  t5 = add_index t4 (table_name @ ascii ''_field'') [ascii ''field''] False
              in (Inr t5, create_all (s\<lparr>tables := (tables s)(table_name \<mapsto> t5)\<rparr>))))"

text \<open>
  \<open>Unihan.install\<close>, given the lines of the concatenated source files. The result is
  the table or the exception, together with the state that the call leaves behind.
\<close>

definition Unihan_install :: "ustr list \<Rightarrow> state \<Rightarrow> (error + table) \<times> state" where
  "Unihan_install lines s =
     (case csv_to_dictlists lines of
        Inl e \<Rightarrow> (Inl e, s)
      | Inr data \<Rightarrow>
          (case Unihan_create_table (ascii ''Unihan'') s of
             (Inl e, s1) \<Rightarrow> (Inl e, s1)
           | (Inr table, s1) \<Rightarrow>
               (case db s1 (ascii ''Unihan'') of
                  None \<Rightarrow> (Inl OperationalError, s1)
                | Some st \<Rightarrow>
                    (case execute_insert st data of
                       Inl e \<Rightarrow> (Inl e, s1)
                     | Inr st' \<Rightarrow> (Inr table, s1\<lparr>db := (db s1)(ascii ''Unihan'' \<mapsto> st')\<rparr>)))))"


section \<open>Conversion between characters and code-point tags\<close>

text \<open>
  Modelled from the spec: the module \<open>cihai.conversion\<close>, with \<open>python_to_ucn\<close> and
  \<open>ucn_to_unicode\<close>, is not among the sources. The spec has \<open>to_code_point_tag\<close> return,
  for a single character, \<open>U+\<close> and the code point in upper-case hexadecimal, padded
  with zeros to at least four digits, and \<open>from_code_point_tag\<close> be its inverse, which
  fails with \<open>MalformedTagError\<close> on a string that is not \<open>U+[0-9A-F]+\<close>. On a string of
  several characters, where the spec is silent, \<open>python_to_ucn\<close> here converts each
  character in turn.
\<close>

definition hex_char :: "nat \<Rightarrow> nat" where
  "hex_char d = (if d < 10 then 48 + d else 55 + d)"

function hex_digits :: "nat \<Rightarrow> ustr" where
  "hex_digits n = (if n < 16 then [hex_char n] else hex_digits (n div 16) @ [hex_char (n mod 16)])"
  by pat_completeness auto
termination
  by (relation "measure (\<lambda>n. n)") auto

definition to_code_point_tag :: "nat \<Rightarrow> ustr" where
  "to_code_point_tag c =
     (let h = hex_digits c in ascii ''U+'' @ replicate (4 - length h) 48 @ h)"

definition python_to_ucn :: "ustr \<Rightarrow> ustr" where
  "python_to_ucn s = concat (map to_code_point_tag s)"

definition is_hex :: "nat \<Rightarrow> bool" where
  "is_hex c = ((48 \<le> c \<and> c \<le> 57) \<or> (65 \<le> c \<and> c \<le> 70))"

definition hex_val :: "nat \<Rightarrow> nat" where
  "hex_val c = (if c \<le> 57 then c - 48 else c - 55)"

definition ucn_to_unicode :: "ustr \<Rightarrow> error + ustr" where
  "ucn_to_unicode tag =
     (if startswith tag (ascii ''U+'') \<and> drop 2 tag \<noteq> [] \<and> list_all is_hex (drop 2 tag)
      then Inr [foldl (\<lambda>a c. 16 * a + hex_val c) 0 (drop 2 tag)]
      else Inl MalformedTagError)"

section \<open>The query service\<close>

text \<open>
  What a field filter holds: the \<open>fields\<close> argument is a list of strings, while each
  element of \<open>default_fields\<close> is a list of field names.
\<close>

datatype operand = StrOp ustr | ListOp "ustr list"

fun is_ListOp :: "operand \<Rightarrow> bool" where
  "is_ListOp (ListOp fs) = True"
| "is_ListOp (StrOp f) = False"

fun str_operands :: "operand list \<Rightarrow> ustr list" where
  "str_operands [] = []"
| "str_operands (StrOp f # os) = f # str_operands os"
| "str_operands (ListOp fs # os) = str_operands os"

text \<open>A row of a result: the selected columns \<open>value\<close>, \<open>char\<close> and \<open>field\<close>.\<close>

record result =
  r_value :: ustr
  r_char :: "ustr option"
  r_field :: ustr

definition scalar_subquery :: "ustr option list \<Rightarrow> ustr option" where
  "scalar_subquery xs = (case xs of [] \<Rightarrow> None | x # _ \<Rightarrow> x)"

text \<open>
  The statement that \<open>get\<close> and \<open>reverse\<close> build, on the rows of the table:
  \<^verbatim>\<open>
  andfields = [(table.c.field == t) for t in fields]
  andstmt = and_(*andfields)
  q = select([table.c.field]).where(andstmt)
  query = select([table.c.value, table.c.char, table.c.field]).where(
      table.c.field == q).where(<condition on table.c.value>)
  \<close>
  The subquery \<open>q\<close> keeps the rows whose field equals every element of \<open>fields\<close>,
  here \<open>field_filter\<close> (all rows when it is empty: an empty conjunction is no \<open>WHERE\<close> clause), and
  \<open>table.c.field == q\<close> compares with \<open>q\<close> as a scalar. A comparison with NULL does
  not hold.
\<close>

definition select_rows :: "row list \<Rightarrow> ustr list \<Rightarrow> (ustr \<Rightarrow> bool) \<Rightarrow> result list" where
  "select_rows rs field_filter cond =
     (let q = scalar_subquery
                (map (\<lambda>r. map_of r (ascii ''field''))
                   (filter (\<lambda>r. list_all (\<lambda>t. map_of r (ascii ''field'') = Some t) field_filter) rs))
      in concat (map (\<lambda>r.
           (case map_of r (ascii ''field'') of
              None \<Rightarrow> []
            | Some f \<Rightarrow>
                (case map_of r (ascii ''value'') of
                   None \<Rightarrow> []
                 | Some v \<Rightarrow>
                     if Some f = q \<and> cond v
                     then [\<lparr>r_value = v, r_char = map_of r (ascii ''char''), r_field = f\<rparr>]
                     else []))) rs))"

text \<open>
  The rows that a statement on the table \<open>Unihan\<close> ranges over.
  \<open>Table('Unihan', metadata)\<close> is the declared table or a new one without columns;
  \<open>table.c.field\<close>, \<open>table.c.value\<close> and \<open>table.c.char\<close> raise \<open>AttributeError\<close>
  when the table has no such column. The engine refuses a table or a column that the
  database does not have.
\<close>

definition unihan_table_rows :: "state \<Rightarrow> error + row list" where
  "unihan_table_rows s =
     (let table = (case tables s (ascii ''Unihan'') of
                     Some t \<Rightarrow> t
                   | None \<Rightarrow> \<lparr>columns = [], pkey = [], indexes = []\<rparr>);
          used = [ascii ''field'', ascii ''value'', ascii ''char'']
      in if \<not> list_all (\<lambda>c. c \<in> set (map col_name (columns table))) used
         then Inl AttributeError
         else (case db s (ascii ''Unihan'') of
                 None \<Rightarrow> Inl OperationalError
               | Some st \<Rightarrow>
                   if \<not> list_all (\<lambda>c. c \<in> set (map col_name (columns (schema st)))) used
                   then Inl OperationalError
                   else Inr (rows st)))"

text \<open>
  Building and running the statement of \<open>get\<close> and \<open>reverse\<close>. The engine prepares
  the statement, then binds the parameters, and refuses a list as a parameter.
\<close>

definition execute_select :: "state \<Rightarrow> operand list \<Rightarrow> (ustr \<Rightarrow> bool) \<Rightarrow> error + result list" where
  "execute_select s field_filter cond =
     (case unihan_table_rows s of
        Inl e \<Rightarrow> Inl e
      | Inr rs \<Rightarrow>
          if list_ex is_ListOp field_filter then Inl InterfaceError
          else Inr (select_rows rs (str_operands field_filter) cond))"

text \<open>The filter of a call: the keyword argument \<open>fields\<close>, or else the default.\<close>

definition filter_of :: "ustr list list \<Rightarrow> ustr list option \<Rightarrow> operand list" where
  "filter_of dflt kw_fields =
     (case kw_fields of None \<Rightarrow> map ListOp dflt | Some fs \<Rightarrow> map StrOp fs)"

text \<open>\<open>for r in query: response['unihan'][r['field']] = r['value']\<close>.\<close>

fun get_loop :: "response \<Rightarrow> result list \<Rightarrow> error + response" where
  "get_loop response [] = Inr response"
| "get_loop response (r # rs) =
     (case map_of response (ascii ''unihan'') of
        None \<Rightarrow> Inl KeyError
      | Some (Str x) \<Rightarrow> Inl TypeError
      | Some (Dict d) \<Rightarrow>
          get_loop (AList.update (ascii ''unihan'')
                      (Dict (AList.update (r_field r) (Str (r_value r)) d)) response) rs)"

text \<open>
  The end of both \<open>get\<close> and \<open>reverse\<close>:
  \<open>if not response['unihan']: del response['unihan']\<close>, then \<open>return response\<close>.
\<close>

definition drop_empty :: "response \<Rightarrow> error + response" where
  "drop_empty response =
     (case map_of response (ascii ''unihan'') of
        None \<Rightarrow> Inl KeyError
      | Some v \<Rightarrow>
          if \<not> truthy v then Inr (AList.delete (ascii ''unihan'') response)
          else Inr response)"

text \<open>
  \<open>Unihan.get(request, response, **kwargs)\<close>. The conversion \<open>python_to_ucn\<close> is a
  parameter. The result of \<open>query.execute()\<close> is an object, hence true in
  \<open>if query:\<close>. The response is passed in and handed back.
\<close>

definition Unihan_get ::
  "(ustr \<Rightarrow> ustr) \<Rightarrow> state \<Rightarrow> ustr \<Rightarrow> response \<Rightarrow> ustr list option \<Rightarrow> error + response" where
  "Unihan_get to_ucn s request response kw_fields =
     (let request' = (if \<not> startswith request (ascii ''U+'') then to_ucn request else request);
          fields = filter_of default_fields kw_fields
      in case execute_select s fields (\<lambda>v. v = request') of
           Inl e \<Rightarrow> Inl e
         | Inr query \<Rightarrow>
             (let response1 =
                    (if map_of response (ascii ''unihan'') = None
                     then AList.update (ascii ''unihan'') (Dict []) response
                     else response)
              in case get_loop response1 query of
                   Inl e \<Rightarrow> Inl e
                 | Inr response2 \<Rightarrow> drop_empty response2))"

text \<open>
  The same call on the heap of Python objects: \<open>response\<close> is a reference to a
  dictionary, the dictionary is updated where it lives, and the reference is returned.
\<close>

type_synonym ref = nat

type_synonym heap = "ref \<rightharpoonup> response"

definition Unihan_get_ref ::
  "(ustr \<Rightarrow> ustr) \<Rightarrow> state \<Rightarrow> ustr \<Rightarrow> heap \<Rightarrow> ref \<Rightarrow> ustr list option \<Rightarrow> error + heap \<times> ref" where
  "Unihan_get_ref to_ucn s request h response kw_fields =
     (case h response of
        None \<Rightarrow> Inl TypeError
      | Some d \<Rightarrow>
          (case Unihan_get to_ucn s request d kw_fields of
             Inl e \<Rightarrow> Inl e
           | Inr d' \<Rightarrow> Inr (h(response \<mapsto> d'), response)))"

text \<open>
  \<open>bootstrap.get(char, metadata, **kwargs)\<close>: the same statement, the rows gathered in
  a new dictionary from field to value. \<open>DEFAULT_FIELDS\<close> is computed from
  \<open>UNIHAN_MANIFEST\<close>, a parameter, as \<open>default_fields\<close> is from \<open>UNIHAN_DATASETS\<close>.
\<close>

definition DEFAULT_FIELDS :: "install_dict \<Rightarrow> ustr list list" where
  "DEFAULT_FIELDS UNIHAN_MANIFEST =
     map snd (filter (\<lambda>(t, f). t \<in> set [ascii ''Unihan'']) UNIHAN_MANIFEST)"

definition bootstrap_get ::
  "(ustr \<Rightarrow> ustr) \<Rightarrow> install_dict \<Rightarrow> state \<Rightarrow> ustr \<Rightarrow> ustr list option \<Rightarrow> error + row" where
  "bootstrap_get to_ucn UNIHAN_MANIFEST s char kw_fields =
     (let char' = (if \<not> startswith char (ascii ''U+'') then to_ucn char else char);
          fields = filter_of (DEFAULT_FIELDS UNIHAN_MANIFEST) kw_fields
      in case execute_select s fields (\<lambda>v. v = char') of
           Inl e \<Rightarrow> Inl e
         | Inr query \<Rightarrow>
             Inr (fold (\<lambda>r response. AList.update (r_field r) (r_value r) response) query []))"

text \<open>
  \<open>LIKE\<close>: \<open>%\<close> stands for any run of characters, \<open>_\<close> for any one character, and
  ASCII letters match in either case.
\<close>

definition lower_ascii :: "nat \<Rightarrow> nat" where
  "lower_ascii c = (if 65 \<le> c \<and> c \<le> 90 then c + 32 else c)"

fun like :: "ustr \<Rightarrow> ustr \<Rightarrow> bool" where
  "like [] s = (s = [])"
| "like (p # ps) [] = (p = 37 \<and> like ps [])"
| "like (p # ps) (c # cs) =
     (if p = 37 then like ps (c # cs) \<or> like (p # ps) cs
      else (p = 95 \<or> lower_ascii p = lower_ascii c) \<and> like ps cs)"

text \<open>
  The loop of \<open>reverse\<close>:
  \<^verbatim>\<open>
  char = conversion.ucn_to_unicode(r['char'])
  if not char in response['unihan']:
      response['unihan'][char] = {}
  response['unihan'][char][r['field']] = r['value']
  \<close>
\<close>

fun reverse_loop :: "(ustr \<Rightarrow> error + ustr) \<Rightarrow> response \<Rightarrow> result list \<Rightarrow> error + response" where
  "reverse_loop to_unicode response [] = Inr response"
| "reverse_loop to_unicode response (r # rs) =
     (case r_char r of
        None \<Rightarrow> Inl TypeError
      | Some tag \<Rightarrow>
          (case to_unicode tag of
             Inl e \<Rightarrow> Inl e
           | Inr char \<Rightarrow>
               (case map_of response (ascii ''unihan'') of
                  None \<Rightarrow> Inl KeyError
                | Some (Str x) \<Rightarrow> Inl TypeError
                | Some (Dict d) \<Rightarrow>
                    (let d1 = (if map_of d char = None then AList.update char (Dict []) d else d)
                     in case map_of d1 char of
                          None \<Rightarrow> Inl KeyError
                        | Some (Str x) \<Rightarrow> Inl TypeError
                        | Some (Dict e) \<Rightarrow>
                            reverse_loop to_unicode
                              (AList.update (ascii ''unihan'')
                                 (Dict (AList.update char
                                    (Dict (AList.update (r_field r) (Str (r_value r)) e)) d1))
                                 response) rs))))"

text \<open>\<open>Unihan.reverse(request, response, **kwargs)\<close>, with \<open>ucn_to_unicode\<close> a parameter.\<close>

definition Unihan_reverse ::
  "(ustr \<Rightarrow> error + ustr) \<Rightarrow> state \<Rightarrow> ustr \<Rightarrow> response \<Rightarrow> ustr list option \<Rightarrow> error + response" where
  "Unihan_reverse to_unicode s request response kw_fields =
     (let fields = filter_of default_fields kw_fields
      in case execute_select s fields (\<lambda>v. like request v) of
           Inl e \<Rightarrow> Inl e
         | Inr query \<Rightarrow>
             (let response1 =
                    (if map_of response (ascii ''unihan'') = None
                     then AList.update (ascii ''unihan'') (Dict []) response
                     else response)
              in case reverse_loop to_unicode response1 query of
                   Inl e \<Rightarrow> Inl e
                 | Inr response2 \<Rightarrow> drop_empty response2))"

section \<open>Sequences of inserts and example stores\<close>

text \<open>
  The rows of a table after a sequence of single inserts, starting from \<open>rs\<close>: an
  insert that the engine refuses leaves the rows as they are.
\<close>

fun apply_inserts :: "table \<Rightarrow> row list \<Rightarrow> row list \<Rightarrow> row list" where
  "apply_inserts t rs [] = rs"
| "apply_inserts t rs (r # ds) =
     apply_inserts t (case insert_row t rs r of Inl e \<Rightarrow> rs | Inr rs' \<Rightarrow> rs') ds"

text \<open>A state with nothing declared and nothing stored.\<close>

definition fresh :: state where
  "fresh = \<lparr>tables = Map.empty, db = Map.empty\<rparr>"

text \<open>
  A state whose metadata holds the wide table that \<open>bootstrap.create_table\<close> declares
  for the single field \<open>kDefinition\<close>.
\<close>

definition wide_state :: state where
  "wide_state = \<lparr>tables = snd (create_table [ascii ''kDefinition''] Map.empty), db = Map.empty\<rparr>"

text \<open>Source lines: a record with three fields, and a line without any tab.\<close>

definition line_hao :: ustr where
  "line_hao = [22909, 9] @ ascii ''kDefinition'' @ [9] @ ascii ''good'' @ [10]"


text \<open>
  The store of the lookup scenario, holding the one row with \<open>char\<close> the character
  U+597D, \<open>field\<close> \<open>kDefinition\<close> and \<open>value\<close> \<open>good\<close>, as \<open>install\<close> leaves it.
\<close>

definition scenario_store :: state where
  "scenario_store = snd (Unihan_install [line_hao] fresh)"

text \<open>
  A store with two fields of one character, the character kept as its code-point tag
  as in the Unihan files.
\<close>

definition line_kd :: ustr where
  "line_kd = ascii ''U+597D'' @ [9] @ ascii ''kDefinition'' @ [9] @ ascii ''good'' @ [10]"

definition line_km :: ustr where
  "line_km = ascii ''U+597D'' @ [9] @ ascii ''kMandarin'' @ [9] @ ascii ''hao3'' @ [10]"

definition kd_record :: row where
  "kd_record = [(ascii ''char'', ascii ''U+597D''), (ascii ''field'', ascii ''kDefinition''),
                (ascii ''value'', ascii ''good'')]"

definition km_record :: row where
  "km_record = [(ascii ''char'', ascii ''U+597D''), (ascii ''field'', ascii ''kMandarin''),
                (ascii ''value'', ascii ''hao3'')]"

definition two_field_store :: state where
  "two_field_store = snd (Unihan_install [line_kd, line_km] fresh)"


text \<open>Three inserts into the wide table, the second with the character of the first.\<close>

definition wide_rows :: "row list" where
  "wide_rows =
     [[(ascii ''char'', [22909]), (ascii ''ucn'', ascii ''U+597D'')],
      [(ascii ''char'', [22909]), (ascii ''ucn'', ascii ''U+597E'')],
      [(ascii ''char'', [20339]), (ascii ''ucn'', ascii ''U+4F73'')]]"

text \<open>The record that \<open>line_hao\<close> yields.\<close>

definition hao_record :: row where
  "hao_record = [(ascii ''char'', [22909]), (ascii ''field'', ascii ''kDefinition''),
                 (ascii ''value'', ascii ''good'')]"

text \<open>The table that \<open>bootstrap.create_table\<close> declares for the field \<open>kDefinition\<close>.\<close>

definition wide_table :: table where
  "wide_table =
     \<lparr>columns = [Column (ascii ''char'') (StringT 12) True,
                 Column (ascii ''ucn'') (StringT 12) True,
                 Column (ascii ''kDefinition'') (StringT 256) False],
      pkey = [ascii ''char'', ascii ''ucn''],
      indexes = [\<lparr>idx_name = ascii ''Unihan_unique_char'', idx_columns = [ascii ''char''],
                   idx_unique = True\<rparr>,
                 \<lparr>idx_name = ascii ''Unihan_unique_char_ucn'',
                   idx_columns = [ascii ''char'', ascii ''ucn''], idx_unique = True\<rparr>]\<rparr>"

text \<open>The table that \<open>Unihan._create_table\<close> declares under a name that is new.\<close>

definition long_table :: table where
  "long_table =
     \<lparr>columns = [Column (ascii ''id'') IntegerT True, Column (ascii ''char'') (StringT 12) False,
                 Column (ascii ''field'') (StringT 36) False,
                 Column (ascii ''value'') (StringT 256) False],
      pkey = [ascii ''id''],
      indexes = [\<lparr>idx_name = ascii ''Unihan_unique_char_field_value'',
                   idx_columns = [ascii ''char'', ascii ''field'', ascii ''value''],
                   idx_unique = True\<rparr>,
                 \<lparr>idx_name = ascii ''Unihan_unique_char_field'',
                   idx_columns = [ascii ''char'', ascii ''field''], idx_unique = True\<rparr>,
                 \<lparr>idx_name = ascii ''Unihan_field'', idx_columns = [ascii ''field''],
                   idx_unique = False\<rparr>]\<rparr>"


text \<open>A response that already has an entry of its own.\<close>

definition response0 :: response where
  "response0 = [(ascii ''request'', Str [22909])]"

text \<open>The columns that \<open>Unihan._create_table\<close> appends, in their order.\<close>

definition long_columns :: "column list" where
  "long_columns = [Column (ascii ''id'') IntegerT True, Column (ascii ''char'') (StringT 12) False,
     Column (ascii ''field'') (StringT 36) False, Column (ascii ''value'') (StringT 256) False]"

text \<open>The long table with its three indexes attached a second time.\<close>

definition long_table_again :: table where
  "long_table_again = long_table\<lparr>indexes := indexes long_table @ indexes long_table\<rparr>"

text \<open>
  The wide table after \<open>id\<close> has joined it and \<open>char\<close> has been replaced by a
  column that is no key column.
\<close>

definition wide_table_broken :: table where
  "wide_table_broken =
     \<lparr>columns = [Column (ascii ''char'') (StringT 12) False,
                 Column (ascii ''ucn'') (StringT 12) True,
                 Column (ascii ''kDefinition'') (StringT 256) False,
                 Column (ascii ''id'') IntegerT True],
      pkey = [ascii ''char'', ascii ''ucn'', ascii ''id''],
      indexes = indexes wide_table\<rparr>"

section \<open>Properties\<close>

subsection \<open>Auxiliary facts\<close>

lemma ascii_eq_iff [simp]: "ascii s = ascii t \<longleftrightarrow> s = t"
  by (simp add: ascii_def inj_map_eq_map inj_of_char)

lemma ascii_append [simp]: "ascii a @ ascii b = ascii (a @ b)"
  by (simp add: ascii_def)

lemma set_flatten_datasets: "set (flatten_datasets d) = (\<Union>fs \<in> snd ` set d. set fs)"
  by (simp add: flatten_datasets_def)

subsection \<open>The bootstrap check\<close>

text \<open>
  C2. \<open>is_bootstrapped\<close> returns true exactly when the metadata has a table named
  \<open>Unihan\<close> whose set of column names equals the expected field names together with
  \<open>char\<close> and \<open>ucn\<close>; a superset of columns does not pass, and without the table the
  answer is false. The expected field names are the fields of the install dictionary,
  or of \<open>UNIHAN_MANIFEST\<close> when the dictionary is absent or empty.
\<close>

theorem is_bootstrapped_iff:
  "is_bootstrapped UNIHAN_MANIFEST metadata install_dict \<longleftrightarrow>
     (\<exists>t. metadata (ascii ''Unihan'') = Some t \<and>
        set (map col_name (columns t)) =
          (\<Union>fs \<in> snd ` set (case install_dict of
                                  None \<Rightarrow> UNIHAN_MANIFEST
                                | Some d \<Rightarrow> if d = [] then UNIHAN_MANIFEST else d). set fs)
          \<union> {ascii ''char'', ascii ''ucn''})"
  by (auto simp: is_bootstrapped_def Let_def TABLE_NAME_def DEFAULT_COLUMNS_def
        set_flatten_datasets split: option.splits)

subsection \<open>Reading the source files\<close>



subsection \<open>The wide table of \<open>bootstrap.create_table\<close>\<close>

lemma append_column_nonkey:
  assumes "\<not> primary_key c"
  shows "(col_name c \<in> set (pkey t) \<longrightarrow> (\<exists>t'. append_column t c = Inl (ArgumentError, t'))) \<and>
         (\<forall>t'. append_column t c = Inr t' \<longrightarrow>
            col_name c \<notin> set (pkey t) \<and> pkey t' = pkey t \<and> indexes t' = indexes t \<and>
            (\<forall>d \<in> set (columns t). col_name d \<noteq> col_name c \<longrightarrow> d \<in> set (columns t')))"
  using assms by (auto simp: append_column_def Let_def split: if_splits)

lemma append_columns_nonkey:
  "list_all (\<lambda>c. \<not> primary_key c) cs \<Longrightarrow> append_columns t cs = Inr t' \<Longrightarrow>
     pkey t' = pkey t \<and> indexes t' = indexes t \<and>
     (\<forall>c \<in> set cs. col_name c \<notin> set (pkey t)) \<and>
     (\<forall>d \<in> set (columns t). col_name d \<in> set (pkey t) \<longrightarrow> d \<in> set (columns t'))"
proof (induction cs arbitrary: t)
  case Nil
  then show ?case by simp
next
  case (Cons c cs)
  from Cons.prems(1) have np: "\<not> primary_key c" and rest: "list_all (\<lambda>c. \<not> primary_key c) cs"
    by simp_all
  from Cons.prems(2) obtain t1 where
    1: "append_column t c = Inr t1" and 2: "append_columns t1 cs = Inr t'"
    by (auto split: sum.splits)
  from append_column_nonkey [OF np, of t] 1 have
    a: "col_name c \<notin> set (pkey t)" "pkey t1 = pkey t" "indexes t1 = indexes t"
       "\<forall>d \<in> set (columns t). col_name d \<noteq> col_name c \<longrightarrow> d \<in> set (columns t1)"
    by blast+
  from Cons.IH [OF rest 2] a show ?case by auto
qed

lemma append_columns_nonkey_error:
  "list_all (\<lambda>c. \<not> primary_key c) cs \<Longrightarrow> append_columns t cs = Inl (e, t') \<Longrightarrow>
     (\<exists>c \<in> set cs. col_name c \<in> set (pkey t)) \<and> pkey t' = pkey t \<and> e = ArgumentError"
proof (induction cs arbitrary: t)
  case Nil
  then show ?case by simp
next
  case (Cons c cs)
  from Cons.prems(1) have np: "\<not> primary_key c" and rest: "list_all (\<lambda>c. \<not> primary_key c) cs"
    by simp_all
  show ?case
  proof (cases "append_column t c")
    case (Inl y)
    with Cons.prems(2) np show ?thesis
      by (auto simp: append_column_def Let_def split: if_splits)
  next
    case (Inr t1)
    with Cons.prems(2) have 2: "append_columns t1 cs = Inl (e, t')" by simp
    from append_column_nonkey [OF np, of t] Inr have "pkey t1 = pkey t" by blast
    with Cons.IH [OF rest 2] show ?thesis by auto
  qed
qed



lemma key_columns:
  "append_columns \<lparr>columns = [], pkey = [], indexes = []\<rparr>
     (Column (ascii ''char'') (StringT 12) True # Column (ascii ''ucn'') (StringT 12) True # cs) =
   append_columns
     \<lparr>columns = [Column (ascii ''char'') (StringT 12) True, Column (ascii ''ucn'') (StringT 12) True],
      pkey = [ascii ''char'', ascii ''ucn''], indexes = []\<rparr> cs"
  by (simp add: append_column_def Let_def Column_def)

lemma create_table_cases:
  assumes "metadata TABLE_NAME = None"
  shows "case fst (create_table cols metadata) of
           Inl e \<Rightarrow> ascii ''char'' \<in> set cols \<or> ascii ''ucn'' \<in> set cols
         | Inr t \<Rightarrow>
             pkey t = [ascii ''char'', ascii ''ucn''] \<and>
             indexes t =
               [\<lparr>idx_name = ascii ''Unihan_unique_char'', idx_columns = [ascii ''char''],
                  idx_unique = True\<rparr>,
                \<lparr>idx_name = ascii ''Unihan_unique_char_ucn'',
                  idx_columns = [ascii ''char'', ascii ''ucn''], idx_unique = True\<rparr>] \<and>
             Column (ascii ''char'') (StringT 12) True \<in> set (columns t)"
proof -
  let ?t2 = "\<lparr>columns = [Column (ascii ''char'') (StringT 12) True,
                          Column (ascii ''ucn'') (StringT 12) True],
               pkey = [ascii ''char'', ascii ''ucn''], indexes = []\<rparr>"
  let ?r = "append_columns ?t2 (map (\<lambda>n. Column n (StringT 256) False) cols)"
  show ?thesis
  proof (cases ?r)
    case (Inl x)
    obtain e t' where x: "x = (e, t')" by (cases x)
    have np: "list_all (\<lambda>c. \<not> primary_key c) (map (\<lambda>n. Column n (StringT 256) False) cols)"
      by (simp add: list_all_iff Column_def)
    from append_columns_nonkey_error [OF np Inl [unfolded x]]
    have "ascii ''char'' \<in> set cols \<or> ascii ''ucn'' \<in> set cols"
      by (auto simp: Column_def)
    with Inl assms show ?thesis
      by (simp add: create_table_def key_columns split: prod.splits del: append_columns.simps)
  next
    case (Inr t3)
    have np: "list_all (\<lambda>c. \<not> primary_key c) (map (\<lambda>n. Column n (StringT 256) False) cols)"
      by (simp add: list_all_iff Column_def)
    from append_columns_nonkey [OF np Inr] have
      "pkey t3 = [ascii ''char'', ascii ''ucn'']" "indexes t3 = []"
      "Column (ascii ''char'') (StringT 12) True \<in> set (columns t3)"
      by (simp_all add: Column_def)
    with Inr assms show ?thesis
      by (simp add: create_table_def key_columns Let_def add_index_def TABLE_NAME_def
          del: append_columns.simps)
  qed
qed

lemma insert_row_Inr: "insert_row t rs r = Inr rs' \<Longrightarrow> rs' = rs @ [r] \<and> \<not> violates t rs r \<and> not_null_ok t r"
  by (auto simp: insert_row_def split: if_splits)

lemma insert_row_distinct:
  assumes u: "[ascii ''char''] \<in> set (unique_keys t)"
    and d: "distinct (List.map_filter (\<lambda>r. map_of r (ascii ''char'')) rs)"
    and i: "insert_row t rs r = Inr rs'"
  shows "distinct (List.map_filter (\<lambda>r. map_of r (ascii ''char'')) rs')"
proof -
  from i have rs': "rs' = rs @ [r]" and nv: "\<not> violates t rs r"
    by (auto dest: insert_row_Inr)
  from nv u have "\<not> list_ex (agree_on [ascii ''char''] r) rs"
    by (auto simp: violates_def list_ex_iff)
  then have "\<forall>r' \<in> set rs. map_of r (ascii ''char'') = None \<or> map_of r (ascii ''char'') \<noteq> map_of r' (ascii ''char'')"
    by (auto simp: list_ex_iff agree_on_def)
  with d show ?thesis
    unfolding rs' by (auto simp: map_filter_def split: option.splits) 
qed

lemma apply_inserts_distinct:
  "[ascii ''char''] \<in> set (unique_keys t) \<Longrightarrow>
   distinct (List.map_filter (\<lambda>r. map_of r (ascii ''char'')) rs) \<Longrightarrow>
   distinct (List.map_filter (\<lambda>r. map_of r (ascii ''char'')) (apply_inserts t rs ds))"
proof (induction ds arbitrary: rs)
  case Nil
  then show ?case by simp
next
  case (Cons r ds)
  show ?case
  proof (cases "insert_row t rs r")
    case (Inl e)
    with Cons show ?thesis by simp
  next
    case (Inr rs')
    with Cons insert_row_distinct [OF Cons.prems(1) Cons.prems(2) Inr] show ?thesis by simp
  qed
qed

lemma insert_row_char_not_null:
  assumes c: "Column (ascii ''char'') (StringT 12) True \<in> set (columns t)"
    and a: "autoincrement t = None"
    and n: "list_all (\<lambda>r. map_of r (ascii ''char'') \<noteq> None) rs"
    and i: "insert_row t rs r = Inr rs'"
  shows "list_all (\<lambda>r. map_of r (ascii ''char'') \<noteq> None) rs'"
proof -
  from i have rs': "rs' = rs @ [r]" and ok: "not_null_ok t r"
    by (auto dest: insert_row_Inr)
  from ok c a have "map_of r (ascii ''char'') \<noteq> None"
    by (auto simp: not_null_ok_def list_all_iff Column_def)
  with n show ?thesis unfolding rs' by simp
qed

lemma apply_inserts_char_not_null:
  "Column (ascii ''char'') (StringT 12) True \<in> set (columns t) \<Longrightarrow> autoincrement t = None \<Longrightarrow>
   list_all (\<lambda>r. map_of r (ascii ''char'') \<noteq> None) rs \<Longrightarrow>
   list_all (\<lambda>r. map_of r (ascii ''char'') \<noteq> None) (apply_inserts t rs ds)"
proof (induction ds arbitrary: rs)
  case Nil
  then show ?case by simp
next
  case (Cons r ds)
  show ?case
  proof (cases "insert_row t rs r")
    case (Inl e)
    with Cons show ?thesis by simp
  next
    case (Inr rs')
    with Cons insert_row_char_not_null [OF Cons.prems(1) Cons.prems(2) Cons.prems(3) Inr]
    show ?thesis by simp
  qed
qed

lemma create_table_kDefinition:
  "create_table [ascii ''kDefinition''] Map.empty =
     (Inr wide_table, [ascii ''Unihan'' \<mapsto> wide_table])"
  by (simp add: create_table_def TABLE_NAME_def append_column_def Let_def Column_def
      add_index_def wide_table_def)

lemma wide_table_inserts:
  "apply_inserts wide_table [] wide_rows =
     [[(ascii ''char'', [22909]), (ascii ''ucn'', ascii ''U+597D'')],
      [(ascii ''char'', [20339]), (ascii ''ucn'', ascii ''U+4F73'')]]"
  by (simp add: wide_table_def Column_def insert_row_def not_null_ok_def autoincrement_def
      violates_def unique_keys_def agree_on_def wide_rows_def)

text \<open>
  C10. \<open>bootstrap.create_table\<close> on a metadata without the table \<open>Unihan\<close> either
  raises, which it does only when \<open>char\<close> or \<open>ucn\<close> is among the requested field
  columns, or declares a table that carries, besides the unique index on
  \<open>(char, ucn)\<close>, a unique index on \<open>char\<close> alone. Whatever inserts are then tried
  on the empty table, every row of it has a \<open>char\<close> and no two rows have the same.
\<close>

theorem create_table_one_row_per_char:
  assumes "metadata (ascii ''Unihan'') = None"
  shows "case fst (create_table cols metadata) of
           Inl e \<Rightarrow> ascii ''char'' \<in> set cols \<or> ascii ''ucn'' \<in> set cols
         | Inr t \<Rightarrow>
             \<lparr>idx_name = ascii ''Unihan_unique_char'', idx_columns = [ascii ''char''],
               idx_unique = True\<rparr> \<in> set (indexes t) \<and>
             \<lparr>idx_name = ascii ''Unihan_unique_char_ucn'',
               idx_columns = [ascii ''char'', ascii ''ucn''], idx_unique = True\<rparr>
               \<in> set (indexes t) \<and>
             distinct (List.map_filter (\<lambda>r. map_of r (ascii ''char'')) (apply_inserts t [] ds)) \<and>
             list_all (\<lambda>r. map_of r (ascii ''char'') \<noteq> None) (apply_inserts t [] ds)"
proof (cases "fst (create_table cols metadata)")
  case (Inl e)
  from assms have n: "metadata TABLE_NAME = None" by (simp add: TABLE_NAME_def)
  from create_table_cases [where metadata = metadata and cols = cols, OF n] Inl
  show ?thesis by simp
next
  case (Inr t)
  from assms have n: "metadata TABLE_NAME = None" by (simp add: TABLE_NAME_def)
  from create_table_cases [where metadata = metadata and cols = cols, OF n] Inr have
    pk: "pkey t = [ascii ''char'', ascii ''ucn'']" and
    ix: "indexes t =
               [\<lparr>idx_name = ascii ''Unihan_unique_char'', idx_columns = [ascii ''char''],
                  idx_unique = True\<rparr>,
                \<lparr>idx_name = ascii ''Unihan_unique_char_ucn'',
                  idx_columns = [ascii ''char'', ascii ''ucn''], idx_unique = True\<rparr>]" and
    c: "Column (ascii ''char'') (StringT 12) True \<in> set (columns t)"
    by simp_all
  have u: "[ascii ''char''] \<in> set (unique_keys t)"
    by (simp add: unique_keys_def ix)
  have a: "autoincrement t = None"
    by (simp add: autoincrement_def pk)
  have 1: "distinct (List.map_filter (\<lambda>r. map_of r (ascii ''char'')) (apply_inserts t [] ds))"
    by (rule apply_inserts_distinct [OF u]) (simp add: map_filter_def)
  have 2: "list_all (\<lambda>r. map_of r (ascii ''char'') \<noteq> None) (apply_inserts t [] ds)"
    by (rule apply_inserts_char_not_null [OF c a]) simp
  from 1 2 Inr show ?thesis by (simp add: ix)
qed

theorem create_table_one_row_per_char_witness:
  "(Map.empty :: metadata) (ascii ''Unihan'') = None \<and>
   fst (create_table [ascii ''kDefinition''] Map.empty) = Inr wide_table \<and>
   apply_inserts wide_table [] wide_rows =
     [[(ascii ''char'', [22909]), (ascii ''ucn'', ascii ''U+597D'')],
      [(ascii ''char'', [20339]), (ascii ''ucn'', ascii ''U+4F73'')]] \<and>
   distinct (List.map_filter (\<lambda>r. map_of r (ascii ''char'')) (apply_inserts wide_table [] wide_rows)) \<and>
   list_all (\<lambda>r. map_of r (ascii ''char'') \<noteq> None) (apply_inserts wide_table [] wide_rows)"
proof -
  have e: "(Map.empty :: metadata) (ascii ''Unihan'') = None" by simp
  have f: "fst (create_table [ascii ''kDefinition''] Map.empty) = Inr wide_table"
    by (simp add: create_table_kDefinition)
  from create_table_one_row_per_char [where metadata = Map.empty
         and cols = "[ascii ''kDefinition'']" and ds = wide_rows, OF e] f
       wide_table_inserts
  show ?thesis by simp
qed

subsection \<open>The long table and the importer\<close>


lemma Unihan_create_table_unfold:
  "Unihan_create_table n s =
     (case append_columns (case tables s n of Some t \<Rightarrow> t
                           | None \<Rightarrow> \<lparr>columns = [], pkey = [], indexes = []\<rparr>) long_columns of
        Inl (e, t) \<Rightarrow> (Inl e, s\<lparr>tables := (tables s)(n \<mapsto> t)\<rparr>)
      | Inr t2 \<Rightarrow>
          (Inr (add_index (add_index (add_index t2 (n @ ascii ''_unique_char_field_value'')
                  [ascii ''char'', ascii ''field'', ascii ''value''] True)
                  (n @ ascii ''_unique_char_field'') [ascii ''char'', ascii ''field''] True)
                  (n @ ascii ''_field'') [ascii ''field''] False),
           create_all (s\<lparr>tables := (tables s)(n \<mapsto>
             add_index (add_index (add_index t2 (n @ ascii ''_unique_char_field_value'')
                  [ascii ''char'', ascii ''field'', ascii ''value''] True)
                  (n @ ascii ''_unique_char_field'') [ascii ''char'', ascii ''field''] True)
                  (n @ ascii ''_field'') [ascii ''field''] False)\<rparr>)))"
  unfolding Unihan_create_table_def Let_def long_columns_def
  by (simp del: append_columns.simps)


lemma Unihan_create_table_Inr:
  assumes "fst (Unihan_create_table n s) = Inr t"
  shows "tables (snd (Unihan_create_table n s)) n = Some t"
    and "db (snd (Unihan_create_table n s)) n =
           (case db s n of Some st \<Rightarrow> Some st | None \<Rightarrow> Some \<lparr>schema = t, rows = []\<rparr>)"
    and "\<lparr>idx_name = n @ ascii ''_unique_char_field_value'',
          idx_columns = [ascii ''char'', ascii ''field'', ascii ''value''], idx_unique = True\<rparr>
           \<in> set (indexes t)"
    and "db s m = Some st \<Longrightarrow> db (snd (Unihan_create_table n s)) m = Some st"
proof -
  let ?t0 = "case tables s n of Some t \<Rightarrow> t | None \<Rightarrow> \<lparr>columns = [], pkey = [], indexes = []\<rparr>"
  from assms obtain t2 where a: "append_columns ?t0 long_columns = Inr t2"
    unfolding Unihan_create_table_unfold
    by (cases "append_columns ?t0 long_columns") (auto split: prod.splits)
  from assms a have t: "t = add_index (add_index (add_index t2 (n @ ascii ''_unique_char_field_value'')
                  [ascii ''char'', ascii ''field'', ascii ''value''] True)
                  (n @ ascii ''_unique_char_field'') [ascii ''char'', ascii ''field''] True)
                  (n @ ascii ''_field'') [ascii ''field''] False"
    unfolding Unihan_create_table_unfold by simp
  from a t have s': "snd (Unihan_create_table n s) = create_all (s\<lparr>tables := (tables s)(n \<mapsto> t)\<rparr>)"
    unfolding Unihan_create_table_unfold by simp
  show "tables (snd (Unihan_create_table n s)) n = Some t"
    by (simp add: s' create_all_def)
  show "db (snd (Unihan_create_table n s)) n =
           (case db s n of Some st \<Rightarrow> Some st | None \<Rightarrow> Some \<lparr>schema = t, rows = []\<rparr>)"
    by (simp add: s' create_all_def split: option.splits)
  show "\<lparr>idx_name = n @ ascii ''_unique_char_field_value'',
          idx_columns = [ascii ''char'', ascii ''field'', ascii ''value''], idx_unique = True\<rparr>
           \<in> set (indexes t)"
    by (simp add: t add_index_def)
  show "db (snd (Unihan_create_table n s)) m = Some st" if "db s m = Some st"
    using that by (simp add: s' create_all_def)
qed


lemma bind_all_keys:
  "\<forall>d \<in> set data. map fst d = ks \<Longrightarrow> bind_all ks data = Inr data"
proof (induction data)
  case Nil
  then show ?case by simp
next
  case (Cons d data)
  then have k: "map fst d = ks" by simp
  have 1: "list_all (\<lambda>k. map_of d k \<noteq> None) ks"
    unfolding k [symmetric] list_all_iff
    by (auto simp: map_of_eq_None_iff)
  have 2: "filter (\<lambda>kv. fst kv \<in> set ks) d = d"
    unfolding k [symmetric] by (induction d) auto
  from 1 2 have "bind_params ks d = Inr d" by (simp add: bind_params_def)
  with Cons show ?case by simp
qed



lemma execute_insert_schema:
  "execute_insert st data = Inr st' \<Longrightarrow> schema st' = schema st"
  by (auto simp: execute_insert_def split: list.splits sum.splits)


lemma Unihan_install_db:
  assumes "csv_to_dictlists lines = Inr data" "fst (Unihan_create_table (ascii ''Unihan'') s) = Inr t"
  shows "db (snd (Unihan_install lines s)) (ascii ''Unihan'') =
     (case execute_insert
             (case db s (ascii ''Unihan'') of
                Some st \<Rightarrow> st
              | None \<Rightarrow> \<lparr>schema = t, rows = []\<rparr>)
             data of
        Inl e \<Rightarrow> Some (case db s (ascii ''Unihan'') of
                         Some st \<Rightarrow> st
                       | None \<Rightarrow> \<lparr>schema = t, rows = []\<rparr>)
      | Inr st' \<Rightarrow> Some st')"
  using assms Unihan_create_table_Inr(2) [OF assms(2)]
  by (cases "Unihan_create_table (ascii ''Unihan'') s")
     (auto simp: Unihan_install_def split: option.splits sum.splits)

lemma tables_Unihan_install:
  assumes "csv_to_dictlists lines = Inr data" "fst (Unihan_create_table (ascii ''Unihan'') s) = Inr t"
  shows "tables (snd (Unihan_install lines s)) (ascii ''Unihan'') = Some t"
  using assms Unihan_create_table_Inr(1) [OF assms(2)] Unihan_create_table_Inr(2) [OF assms(2)]
  by (cases "Unihan_create_table (ascii ''Unihan'') s")
     (auto simp: Unihan_install_def split: option.splits sum.splits)


lemma db_fresh: "db fresh n = None"
  by (simp add: fresh_def)

lemma Unihan_create_table_fresh:
  "fst (Unihan_create_table (ascii ''Unihan'') fresh) = Inr long_table"
  by (simp add: Unihan_create_table_def fresh_def Let_def append_column_def add_index_def
      Column_def long_table_def)

lemma Unihan_create_table_long:
  "tables s (ascii ''Unihan'') = Some long_table \<Longrightarrow>
   fst (Unihan_create_table (ascii ''Unihan'') s) = Inr long_table_again"
  by (simp add: Unihan_create_table_def Let_def append_column_def add_index_def
      Column_def long_table_def long_table_again_def)

lemma tables_wide_state: "tables wide_state = [ascii ''Unihan'' \<mapsto> wide_table]"
  by (simp add: wide_state_def create_table_kDefinition)

lemma Unihan_create_table_wide:
  "Unihan_create_table (ascii ''Unihan'') wide_state =
     (Inl ArgumentError, wide_state\<lparr>tables := (tables wide_state)(ascii ''Unihan'' \<mapsto> wide_table_broken)\<rparr>)"
  by (simp add: Unihan_create_table_def Let_def tables_wide_state append_column_def
      Column_def wide_table_def wide_table_broken_def)

lemma long_table_columns:
  "map col_name (columns long_table) = [ascii ''id'', ascii ''char'', ascii ''field'', ascii ''value'']"
  by (simp add: long_table_def Column_def)

lemma long_table_not_null: "not_null_ok long_table r"
  by (simp add: not_null_ok_def autoincrement_def long_table_def Column_def)

lemma long_table_unique_keys:
  "unique_keys long_table =
     [[ascii ''id''], [ascii ''char'', ascii ''field'', ascii ''value''],
      [ascii ''char'', ascii ''field'']]"
  by (simp add: unique_keys_def long_table_def Column_def)

lemma insert_row_long_table:
  "insert_row long_table rs r =
     (if list_all (\<lambda>k. k \<in> set [ascii ''id'', ascii ''char'', ascii ''field'', ascii ''value''])
           (map fst r)
      then if list_ex (\<lambda>cs. list_ex (agree_on cs r) rs)
                [[ascii ''id''], [ascii ''char'', ascii ''field'', ascii ''value''],
                 [ascii ''char'', ascii ''field'']]
           then Inl IntegrityError else Inr (rs @ [r])
      else Inl OperationalError)"
  unfolding insert_row_def violates_def long_table_unique_keys
  by (simp only: long_table_columns [symmetric] long_table_not_null simp_thms if_True if_False
        split: if_splits) simp

lemma install_db_fresh:
  assumes "csv_to_dictlists lines = Inr data"
  shows "db (snd (Unihan_install lines fresh)) (ascii ''Unihan'') =
     (case execute_insert \<lparr>schema = long_table, rows = []\<rparr> data of
        Inl e \<Rightarrow> Some \<lparr>schema = long_table, rows = []\<rparr>
      | Inr st' \<Rightarrow> Some st')"
  using Unihan_install_db [OF assms Unihan_create_table_fresh]
  by (simp add: db_fresh split: sum.splits)

lemma tables_install_fresh:
  assumes "csv_to_dictlists lines = Inr data"
  shows "tables (snd (Unihan_install lines fresh)) (ascii ''Unihan'') = Some long_table"
  using assms Unihan_create_table_fresh by (rule tables_Unihan_install)


lemma execute_insert_one:
  "execute_insert \<lparr>schema = long_table, rows = rs\<rparr> [r] =
     (case insert_row long_table rs r of
        Inl e \<Rightarrow> Inl e
      | Inr rs' \<Rightarrow> Inr \<lparr>schema = long_table, rows = rs'\<rparr>)"
proof -
  have 1: "list_all (\<lambda>k. map_of r k \<noteq> None) (map fst r)"
    by (auto simp: list_all_iff map_of_eq_None_iff)
  have 2: "filter (\<lambda>kv. fst kv \<in> set (map fst r)) r = r"
    by (induction r) auto
  from 1 2 have "bind_params (map fst r) r = Inr r" by (simp add: bind_params_def)
  then show ?thesis
    by (simp add: execute_insert_def split: sum.splits)
qed

lemma csv_hao: "csv_to_dictlists [line_hao] = Inr [hao_record]"
  by (simp add: line_hao_def hao_record_def line_record_def keys_def strip_def is_space_def
      ascii_def)


lemma hao_once:
  "db (snd (Unihan_install [line_hao] fresh)) (ascii ''Unihan'') =
     Some \<lparr>schema = long_table, rows = [hao_record]\<rparr>"
  unfolding install_db_fresh [OF csv_hao] execute_insert_one insert_row_long_table
  by (simp add: hao_record_def)





lemma tables_scenario: "tables scenario_store (ascii ''Unihan'') = Some long_table"
  unfolding scenario_store_def using csv_hao by (rule tables_install_fresh)

text \<open>
  C7, evaluated where the table already exists. \<open>bootstrap.create_table\<close> returns
  the existing table and leaves the metadata as it is, whatever field names it is given.
  \<open>Unihan._create_table\<close> has no such guard. On a metadata that holds the wide table
  it appends \<open>id\<close>, replaces \<open>char\<close> and raises \<open>ArgumentError\<close>; on the metadata
  that a first \<open>install\<close> left, it returns the table with its three indexes attached
  once more. In both cases the existing table is modified.
\<close>

theorem schema_creation_existing:
  "(\<forall>cols metadata t. metadata (ascii ''Unihan'') = Some t \<longrightarrow>
      create_table cols metadata = (Inr t, metadata)) \<and>
   tables wide_state (ascii ''Unihan'') = Some wide_table \<and>
   fst (Unihan_create_table (ascii ''Unihan'') wide_state) = Inl ArgumentError \<and>
   tables (snd (Unihan_create_table (ascii ''Unihan'') wide_state)) (ascii ''Unihan'') =
     Some wide_table_broken \<and>
   wide_table_broken \<noteq> wide_table \<and>
   tables scenario_store (ascii ''Unihan'') = Some long_table \<and>
   fst (Unihan_create_table (ascii ''Unihan'') scenario_store) = Inr long_table_again \<and>
   tables (snd (Unihan_create_table (ascii ''Unihan'') scenario_store)) (ascii ''Unihan'') =
     Some long_table_again \<and>
   long_table_again \<noteq> long_table"
proof -
  have 1: "\<forall>cols metadata t. metadata (ascii ''Unihan'') = Some t \<longrightarrow>
      create_table cols metadata = (Inr t, metadata)"
    by (simp add: create_table_def TABLE_NAME_def)
  have 2: "fst (Unihan_create_table (ascii ''Unihan'') scenario_store) = Inr long_table_again"
    using tables_scenario by (rule Unihan_create_table_long)
  have 3: "tables (snd (Unihan_create_table (ascii ''Unihan'') scenario_store)) (ascii ''Unihan'') =
     Some long_table_again"
    using 2 by (rule Unihan_create_table_Inr(1))
  have 4: "wide_table_broken \<noteq> wide_table"
    by (simp add: wide_table_broken_def wide_table_def)
  have 5: "long_table_again \<noteq> long_table"
    by (simp add: long_table_again_def long_table_def)
  from 1 2 3 4 5 tables_scenario show ?thesis
    by (simp add: Unihan_create_table_wide tables_wide_state)
qed

theorem schema_creation_existing_witness:
  "tables wide_state (ascii ''Unihan'') = Some wide_table \<and>
   create_table [ascii ''kMandarin''] (tables wide_state) = (Inr wide_table, tables wide_state)"
proof -
  have 1: "tables wide_state (ascii ''Unihan'') = Some wide_table"
    by (simp add: tables_wide_state)
  from schema_creation_existing have
    "tables wide_state (ascii ''Unihan'') = Some wide_table \<longrightarrow>
       create_table [ascii ''kMandarin''] (tables wide_state) = (Inr wide_table, tables wide_state)"
    by blast
  with 1 show ?thesis by simp
qed

subsection \<open>The query service\<close>

lemma default_fields_empty: "default_fields = []"
  by (simp add: default_fields_def UNIHAN_DATASETS_def)

lemma str_operands_StrOp [simp]: "str_operands (map StrOp fs) = fs"
  by (induction fs) simp_all

lemma no_ListOp_StrOp [simp]: "\<not> list_ex is_ListOp (map StrOp fs)"
  by (induction fs) simp_all

lemma filter_of_default:
  "filter_of default_fields kw = map StrOp (case kw of None \<Rightarrow> [] | Some fs \<Rightarrow> fs)"
  by (simp add: filter_of_def default_fields_empty split: option.splits)

lemma get_loop_frame:
  "get_loop response q = Inr response' \<Longrightarrow> k \<noteq> ascii ''unihan'' \<Longrightarrow>
   map_of response' k = map_of response k"
proof (induction q arbitrary: response)
  case Nil
  then show ?case by simp
next
  case (Cons r q)
  from Cons.prems(1) obtain d where
    d: "map_of response (ascii ''unihan'') = Some (Dict d)" and
    g: "get_loop (AList.update (ascii ''unihan'')
                    (Dict (AList.update (r_field r) (Str (r_value r)) d)) response) q = Inr response'"
    by (auto split: option.splits pyval.splits)
  from Cons.IH [OF g Cons.prems(2)] Cons.prems(2) show ?case
    by (simp add: update_conv')
qed

lemma reverse_loop_frame:
  "reverse_loop u response q = Inr response' \<Longrightarrow> k \<noteq> ascii ''unihan'' \<Longrightarrow>
   map_of response' k = map_of response k"
proof (induction q arbitrary: response)
  case Nil
  then show ?case by simp
next
  case (Cons r q)
  from Cons.prems(1) obtain v where
    g: "reverse_loop u (AList.update (ascii ''unihan'') v response) q = Inr response'"
    by (auto simp: Let_def split: option.splits pyval.splits sum.splits)
  from Cons.IH [OF g Cons.prems(2)] Cons.prems(2) show ?case
    by (simp add: update_conv')
qed

lemma drop_empty_frame:
  "drop_empty response = Inr response' \<Longrightarrow> k \<noteq> ascii ''unihan'' \<Longrightarrow>
   map_of response' k = map_of response k"
  by (auto simp: drop_empty_def split: option.splits if_splits)


lemma Unihan_get_frame:
  assumes "Unihan_get to_ucn s request response kw = Inr response'" "k \<noteq> ascii ''unihan''"
  shows "map_of response' k = map_of response k"
proof -
  from assms(1) obtain q r2 where
    l: "get_loop (if map_of response (ascii ''unihan'') = None
                  then AList.update (ascii ''unihan'') (Dict []) response else response) q = Inr r2"
    and d: "drop_empty r2 = Inr response'"
    by (auto simp: Unihan_get_def Let_def split: sum.splits)
  from drop_empty_frame [OF d assms(2)] get_loop_frame [OF l assms(2)] assms(2)
  show ?thesis by (simp add: update_conv' split: if_splits)
qed

lemma Unihan_reverse_frame:
  assumes "Unihan_reverse u s request response kw = Inr response'" "k \<noteq> ascii ''unihan''"
  shows "map_of response' k = map_of response k"
proof -
  from assms(1) obtain q r2 where
    l: "reverse_loop u (if map_of response (ascii ''unihan'') = None
                  then AList.update (ascii ''unihan'') (Dict []) response else response) q = Inr r2"
    and d: "drop_empty r2 = Inr response'"
    by (auto simp: Unihan_reverse_def Let_def split: sum.splits)
  from drop_empty_frame [OF d assms(2)] reverse_loop_frame [OF l assms(2)] assms(2)
  show ?thesis by (simp add: update_conv' split: if_splits)
qed

lemma Unihan_get_no_rows:
  assumes "unihan_table_rows s = Inr rs"
    and "select_rows rs (case kw of None \<Rightarrow> [] | Some fs \<Rightarrow> fs)
           (\<lambda>v. v = (if \<not> startswith request (ascii ''U+'') then to_ucn request else request)) = []"
  shows "Unihan_get to_ucn s request response kw =
           Inr (if (case map_of response (ascii ''unihan'') of None \<Rightarrow> False | Some v \<Rightarrow> truthy v)
                then response else AList.delete (ascii ''unihan'') response)"
  using assms
  by (auto simp: Unihan_get_def Let_def execute_select_def filter_of_default drop_empty_def
      update_conv' delete_update_same split: option.splits)


lemma python_to_ucn_hao: "python_to_ucn [22909] = ascii ''U+597D''"
  by (simp add: python_to_ucn_def to_code_point_tag_def hex_digits.simps [of 22909]
      hex_digits.simps [of 1431] hex_digits.simps [of 89] hex_digits.simps [of 5] hex_char_def
      ascii_def del: hex_digits.simps)

lemma unihan_table_rows_long:
  "tables s (ascii ''Unihan'') = Some long_table \<Longrightarrow>
   db s (ascii ''Unihan'') = Some \<lparr>schema = long_table, rows = rs\<rparr> \<Longrightarrow>
   unihan_table_rows s = Inr rs"
  by (simp add: unihan_table_rows_def Let_def long_table_columns del: set_map)

lemma scenario_rows: "unihan_table_rows scenario_store = Inr [hao_record]"
  using tables_scenario
  by (rule unihan_table_rows_long) (simp add: scenario_store_def hao_once)


lemma csv_two:
  "csv_to_dictlists [line_kd, line_km] = Inr [kd_record, km_record]"
  by (simp add: line_kd_def line_km_def kd_record_def km_record_def line_record_def keys_def strip_def is_space_def
      ascii_def)

lemma execute_insert_complete:
  assumes "data \<noteq> []" "\<forall>d \<in> set data. map fst d = keys"
  shows "execute_insert st data =
     (case insert_all (schema st) (rows st) data of
        Inl e \<Rightarrow> Inl e
      | Inr rs \<Rightarrow> Inr (st\<lparr>rows := rs\<rparr>))"
proof -
  from assms obtain d ds where data: "data = d # ds" and kd: "map fst d = keys"
    by (cases data) auto
  from assms(2) have "bind_all keys data = Inr data" by (rule bind_all_keys)
  then show ?thesis
    by (simp add: execute_insert_def data kd)
qed

lemma two_field_db:
  "db two_field_store (ascii ''Unihan'') =
     Some \<lparr>schema = long_table, rows = [kd_record, km_record]\<rparr>"
proof -
  have k: "\<forall>d \<in> set [kd_record, km_record]. map fst d = keys"
    by (simp add: kd_record_def km_record_def keys_def)
  have "execute_insert \<lparr>schema = long_table, rows = []\<rparr> [kd_record, km_record] =
          Inr \<lparr>schema = long_table, rows = [kd_record, km_record]\<rparr>"
    unfolding execute_insert_complete [OF _ k, simplified]
    by (simp add: insert_row_long_table kd_record_def km_record_def agree_on_def)
  then show ?thesis
    unfolding two_field_store_def install_db_fresh [OF csv_two] by simp
qed

lemma two_field_rows: "unihan_table_rows two_field_store = Inr [kd_record, km_record]"
  by (rule unihan_table_rows_long)
     (simp_all add: two_field_store_def tables_install_fresh [OF csv_two]
        two_field_db [unfolded two_field_store_def])

lemma not_tagged_hao: "\<not> startswith [22909] (ascii ''U+'')"
  by (simp add: startswith_def ascii_def)

lemma select_scenario:
  "select_rows [hao_record] fs (\<lambda>v. v = ascii ''U+597D'') = []"
  by (simp add: select_rows_def hao_record_def)

lemma bootstrap_get_no_rows:
  assumes "unihan_table_rows s = Inr rs"
    and "select_rows rs fs
           (\<lambda>v. v = (if \<not> startswith request (ascii ''U+'') then to_ucn request else request)) = []"
  shows "bootstrap_get to_ucn UNIHAN_MANIFEST s request (Some fs) = Inr []"
  using assms by (simp add: bootstrap_get_def Let_def execute_select_def filter_of_def)


lemma like_percent: "like [37] s"
  by (induction s) simp_all

lemma ucn_to_unicode_hao: "ucn_to_unicode (ascii ''U+597D'') = Inr [22909]"
  by (simp add: ucn_to_unicode_def startswith_def is_hex_def hex_val_def ascii_def)

lemma Unihan_reverse_rows:
  assumes "unihan_table_rows s = Inr rs"
  shows "Unihan_reverse u s request response (Some fs) =
     (case reverse_loop u
             (if map_of response (ascii ''unihan'') = None
              then AList.update (ascii ''unihan'') (Dict []) response else response)
             (select_rows rs fs (like request)) of
        Inl e \<Rightarrow> Inl e
      | Inr response2 \<Rightarrow> drop_empty response2)"
  using assms by (simp add: Unihan_reverse_def Let_def execute_select_def filter_of_def)

lemma select_two_both:
  "select_rows [kd_record, km_record] [ascii ''kDefinition'', ascii ''kMandarin''] (like [37]) = []"
  by (simp add: select_rows_def scalar_subquery_def kd_record_def km_record_def)

lemma select_two_kd:
  "select_rows [kd_record, km_record] [ascii ''kDefinition''] (like [37]) =
     [\<lparr>r_value = ascii ''good'', r_char = Some (ascii ''U+597D''), r_field = ascii ''kDefinition''\<rparr>]"
  by (simp add: select_rows_def scalar_subquery_def kd_record_def km_record_def like_percent)

lemma select_two_km:
  "select_rows [kd_record, km_record] [ascii ''kMandarin''] (like [37]) =
     [\<lparr>r_value = ascii ''hao3'', r_char = Some (ascii ''U+597D''), r_field = ascii ''kMandarin''\<rparr>]"
  by (simp add: select_rows_def scalar_subquery_def kd_record_def km_record_def like_percent)

text \<open>
  C1, evaluated on the scenario of the claim. The store holds the one row with
  \<open>char\<close> the character U+597D, \<open>field\<close> \<open>kDefinition\<close> and \<open>value\<close> \<open>good\<close>.
  The lookup of that character with the filter \<open>kDefinition\<close> returns the response
  without any entry, where the claim has the entry of \<open>kDefinition\<close> with \<open>good\<close>:
  the statement compares the column \<open>value\<close>, not \<open>char\<close>, with the code-point tag.
\<close>

theorem lookup_scenario:
  "Unihan_get python_to_ucn scenario_store [22909] [] (Some [ascii ''kDefinition'']) = Inr [] \<and>
   bootstrap_get python_to_ucn UNIHAN_MANIFEST scenario_store [22909]
     (Some [ascii ''kDefinition'']) = Inr []"
proof -
  have sel: "select_rows [hao_record] (case Some [ascii ''kDefinition''] of None \<Rightarrow> [] | Some fs \<Rightarrow> fs)
           (\<lambda>v. v = (if \<not> startswith [22909] (ascii ''U+'') then python_to_ucn [22909]
                       else [22909])) = []"
    by (simp add: not_tagged_hao python_to_ucn_hao select_scenario)
  have 1: "Unihan_get python_to_ucn scenario_store [22909] [] (Some [ascii ''kDefinition'']) = Inr []"
    using Unihan_get_no_rows [where s = scenario_store and rs = "[hao_record]"
        and kw = "Some [ascii ''kDefinition'']" and request = "[22909]"
        and to_ucn = python_to_ucn and response = "[]", OF scenario_rows sel] by simp
  have 2: "bootstrap_get python_to_ucn UNIHAN_MANIFEST scenario_store [22909]
     (Some [ascii ''kDefinition'']) = Inr []"
    using sel by (intro bootstrap_get_no_rows [where rs = "[hao_record]"] scenario_rows) simp
  from 1 2 show ?thesis by simp
qed



text \<open>
  C5, evaluated on a store with the fields \<open>kDefinition\<close> and \<open>kMandarin\<close> of one
  character. With the pattern \<open>%\<close> and both fields in the filter the reverse lookup
  returns nothing, where the claim has both rows under the character; with either field
  alone it returns that field's row. The filter is a conjunction of equalities on the
  one column \<open>field\<close>.
\<close>

theorem reverse_two_fields:
  "Unihan_reverse ucn_to_unicode two_field_store [37] []
     (Some [ascii ''kDefinition'', ascii ''kMandarin'']) = Inr [] \<and>
   Unihan_reverse ucn_to_unicode two_field_store [37] [] (Some [ascii ''kDefinition'']) =
     Inr [(ascii ''unihan'', Dict [([22909], Dict [(ascii ''kDefinition'', Str (ascii ''good''))])])] \<and>
   Unihan_reverse ucn_to_unicode two_field_store [37] [] (Some [ascii ''kMandarin'']) =
     Inr [(ascii ''unihan'', Dict [([22909], Dict [(ascii ''kMandarin'', Str (ascii ''hao3''))])])]"
  unfolding Unihan_reverse_rows [OF two_field_rows] select_two_both select_two_kd select_two_km
  by (simp add: ucn_to_unicode_hao drop_empty_def)




text \<open>
  C9. \<open>get\<close> returns the reference it was given, and on the heap only the dictionary
  behind that reference changes; in that dictionary every key other than \<open>unihan\<close>
  keeps its value. The same holds for the dictionary that \<open>reverse\<close> is given.
\<close>

theorem response_frame:
  "(Unihan_get_ref to_ucn s request h response kw = Inr (h', response') \<longrightarrow>
      response' = response \<and> (\<forall>b. b \<noteq> response \<longrightarrow> h' b = h b) \<and>
      (\<exists>d d'. h response = Some d \<and> h' response = Some d' \<and>
         (\<forall>k. k \<noteq> ascii ''unihan'' \<longrightarrow> map_of d' k = map_of d k)))
   \<and> (Unihan_get to_ucn s request d1 kw = Inr d1' \<longrightarrow>
        (\<forall>k. k \<noteq> ascii ''unihan'' \<longrightarrow> map_of d1' k = map_of d1 k))
   \<and> (Unihan_reverse to_unicode s request d2 kw = Inr d2' \<longrightarrow>
        (\<forall>k. k \<noteq> ascii ''unihan'' \<longrightarrow> map_of d2' k = map_of d2 k))"
proof (intro conjI impI allI)
  assume a: "Unihan_get_ref to_ucn s request h response kw = Inr (h', response')"
  from a obtain d where d: "h response = Some d"
    by (cases "h response") (simp_all add: Unihan_get_ref_def)
  from a d obtain d' where g: "Unihan_get to_ucn s request d kw = Inr d'"
    by (cases "Unihan_get to_ucn s request d kw") (simp_all add: Unihan_get_ref_def)
  from a d g have h': "h' = h(response \<mapsto> d')" and r: "response' = response"
    by (auto simp: Unihan_get_ref_def)
  show "response' = response" by (rule r)
  show "h' b = h b" if "b \<noteq> response" for b using that by (simp add: h')
  have "\<forall>k. k \<noteq> ascii ''unihan'' \<longrightarrow> map_of d' k = map_of d k"
    using Unihan_get_frame [OF g] by blast
  with d h' show "\<exists>d d'. h response = Some d \<and> h' response = Some d' \<and>
         (\<forall>k. k \<noteq> ascii ''unihan'' \<longrightarrow> map_of d' k = map_of d k)"
    by simp
next
  fix k assume "Unihan_get to_ucn s request d1 kw = Inr d1'" "k \<noteq> ascii ''unihan''"
  then show "map_of d1' k = map_of d1 k" by (rule Unihan_get_frame)
next
  fix k assume "Unihan_reverse to_unicode s request d2 kw = Inr d2'" "k \<noteq> ascii ''unihan''"
  then show "map_of d2' k = map_of d2 k" by (rule Unihan_reverse_frame)
qed

theorem response_frame_witness:
  "Unihan_get_ref python_to_ucn scenario_store [22909] [7 \<mapsto> response0] 7
     (Some [ascii ''kDefinition'']) = Inr ([7 \<mapsto> response0], 7) \<and>
   Unihan_reverse ucn_to_unicode two_field_store [37] response0 (Some [ascii ''kDefinition'']) =
     Inr [(ascii ''request'', Str [22909]),
          (ascii ''unihan'', Dict [([22909], Dict [(ascii ''kDefinition'', Str (ascii ''good''))])])] \<and>
   map_of [(ascii ''request'', Str [22909]),
          (ascii ''unihan'', Dict [([22909], Dict [(ascii ''kDefinition'', Str (ascii ''good''))])])]
     (ascii ''request'') = map_of response0 (ascii ''request'')"
proof -
  have sel: "select_rows [hao_record] (case Some [ascii ''kDefinition''] of None \<Rightarrow> [] | Some fs \<Rightarrow> fs)
           (\<lambda>v. v = (if \<not> startswith [22909] (ascii ''U+'') then python_to_ucn [22909]
                       else [22909])) = []"
    by (simp add: not_tagged_hao python_to_ucn_hao select_scenario)
  have g: "Unihan_get python_to_ucn scenario_store [22909] response0 (Some [ascii ''kDefinition'']) =
             Inr response0"
    using Unihan_get_no_rows [where s = scenario_store and rs = "[hao_record]"
        and kw = "Some [ascii ''kDefinition'']" and request = "[22909]"
        and to_ucn = python_to_ucn and response = response0, OF scenario_rows sel]
    by (simp add: response0_def)
  have 1: "Unihan_get_ref python_to_ucn scenario_store [22909] [7 \<mapsto> response0] 7
     (Some [ascii ''kDefinition'']) = Inr ([7 \<mapsto> response0], 7)"
    by (simp add: Unihan_get_ref_def g)
  have 2: "Unihan_reverse ucn_to_unicode two_field_store [37] response0 (Some [ascii ''kDefinition'']) =
     Inr [(ascii ''request'', Str [22909]),
          (ascii ''unihan'', Dict [([22909], Dict [(ascii ''kDefinition'', Str (ascii ''good''))])])]"
    unfolding Unihan_reverse_rows [OF two_field_rows] select_two_kd
    by (simp add: ucn_to_unicode_hao drop_empty_def response0_def)
  have n: "ascii ''request'' \<noteq> ascii ''unihan''" by simp
  from response_frame [where to_unicode = ucn_to_unicode and s = two_field_store
         and request = "[37]" and ?d2.0 = response0 and kw = "Some [ascii ''kDefinition'']"
         and d2' = "[(ascii ''request'', Str [22909]),
          (ascii ''unihan'', Dict [([22909], Dict [(ascii ''kDefinition'', Str (ascii ''good''))])])]"]
       2 n
  have 3: "map_of [(ascii ''request'', Str [22909]),
          (ascii ''unihan'', Dict [([22909], Dict [(ascii ''kDefinition'', Str (ascii ''good''))])])]
     (ascii ''request'') = map_of response0 (ascii ''request'')"
    by blast
  from 1 2 3 show ?thesis by simp
qed

end
